theory Spec2Isabelle
  imports Main
begin

section \<open>The metrics analyzer of the course registration system\<close>

text \<open>
  A shallow embedding of \<^verbatim>\<open>src/metrics_analyzer.py\<close>: the class \<^verbatim>\<open>MetricsAnalyzer\<close>, an
  \<^verbatim>\<open>ast.NodeVisitor\<close> that fills a registry while it walks a parsed module, and the metric
  functions \<^verbatim>\<open>calculate_dit\<close>, \<^verbatim>\<open>calculate_cbo\<close>, \<^verbatim>\<open>calculate_lcom\<close> and
  \<^verbatim>\<open>generate_report\<close> that read the registry.
\<close>

subsection \<open>The syntax tree\<close>

text \<open>
  The nodes of Python's \<^verbatim>\<open>ast\<close> module, as far as the analyzer tells them apart.
  \<^item> \<open>Name x\<close> is \<^verbatim>\<open>ast.Name(id=x)\<close>;
  \<^item> \<open>Attribute v a\<close> is \<^verbatim>\<open>ast.Attribute(value=v, attr=a)\<close>;
  \<^item> \<open>FunctionDef f cs\<close> is \<^verbatim>\<open>ast.FunctionDef(name=f, ...)\<close> with its child nodes
    (arguments, body, decorators, return annotation) in the order of
    \<^verbatim>\<open>ast.iter_child_nodes\<close>;
  \<^item> \<open>ClassDef c bases keywords body decorators\<close> is \<^verbatim>\<open>ast.ClassDef\<close> with its fields
    in their declared order;
  \<^item> \<open>Other kind cs\<close> is any other node: \<open>kind\<close> is the name of its Python class
    (\<^verbatim>\<open>Module\<close>, \<^verbatim>\<open>If\<close>, \<^verbatim>\<open>AsyncFunctionDef\<close>, ...) and \<open>cs\<close> its child nodes.
  The expression contexts (\<^verbatim>\<open>Load\<close>, \<^verbatim>\<open>Store\<close>) below a name or an attribute are leaves
  of no effect and are left out.
\<close>

datatype node =
    Name string
  | Attribute node string
  | FunctionDef string "node list"
  | ClassDef string "node list" "node list" "node list" "node list"
  | Other string "node list"

text \<open>\<^verbatim>\<open>ast.iter_child_nodes(node)\<close>.\<close>

fun iter_child_nodes :: "node \<Rightarrow> node list" where
  "iter_child_nodes (Name x) = []"
| "iter_child_nodes (Attribute v a) = [v]"
| "iter_child_nodes (FunctionDef f cs) = cs"
| "iter_child_nodes (ClassDef c bases keywords body decorators) =
     bases @ keywords @ body @ decorators"
| "iter_child_nodes (Other kind cs) = cs"

subsection \<open>The analyzer's state\<close>

text \<open>The dictionary stored in \<^verbatim>\<open>self.classes[name]\<close>.\<close>

record class_info =
  methods :: "string list"
  attributes :: "string set"
  base_classes :: "string list"
  lines :: nat

text \<open>
  The fields set by \<^verbatim>\<open>__init__\<close>. A \<^verbatim>\<open>dict\<close> and a \<^verbatim>\<open>defaultdict\<close> are both maps: the keys
  present are the domain, and the default factory of a \<^verbatim>\<open>defaultdict\<close> shows in \<open>dd_getitem\<close>.
\<close>

record analyzer =
  classes :: "string \<rightharpoonup> class_info"
  current_class :: "string option"
  inheritance_tree :: "string \<rightharpoonup> string"
  coupling :: "string \<rightharpoonup> string set"
  methods_per_class :: "string \<rightharpoonup> string list"
  attributes_per_class :: "string \<rightharpoonup> string set"
  method_attribute_usage :: "string \<rightharpoonup> (string \<rightharpoonup> string set)"

definition init :: analyzer where
  "init = \<lparr>classes = Map.empty, current_class = None, inheritance_tree = Map.empty,
           coupling = Map.empty, methods_per_class = Map.empty,
           attributes_per_class = Map.empty, method_attribute_usage = Map.empty\<rparr>"

text \<open>
  \<^verbatim>\<open>d[k]\<close> on a \<^verbatim>\<open>defaultdict\<close> whose factory returns \<open>dflt\<close>: a missing key is inserted
  with the default before its value is returned. The result is the value and the dictionary
  after the access.
\<close>

definition dd_getitem :: "'v \<Rightarrow> ('k \<rightharpoonup> 'v) \<Rightarrow> 'k \<Rightarrow> 'v \<times> ('k \<rightharpoonup> 'v)" where
  "dd_getitem dflt d k = (case d k of None \<Rightarrow> (dflt, d(k \<mapsto> dflt)) | Some v \<Rightarrow> (v, d))"

text \<open>\<^verbatim>\<open>d.get(k, dflt)\<close>, which inserts nothing.\<close>

definition dict_get :: "('k \<rightharpoonup> 'v) \<Rightarrow> 'k \<Rightarrow> 'v \<Rightarrow> 'v" where
  "dict_get d k dflt = (case d k of None \<Rightarrow> dflt | Some v \<Rightarrow> v)"

subsection \<open>Depth of inheritance tree\<close>

text \<open>
  \<^verbatim>\<open>
  depth = 0
  current = class_name
  while current in self.inheritance_tree:
      depth += 1
      current = self.inheritance_tree[current]
  return depth
  \<close>
  The loop has no bound and no visited set, so the model is a partial function: \<open>None\<close> is
  a loop that never returns.
\<close>

partial_function (option) dit_loop :: "(string \<rightharpoonup> string) \<Rightarrow> int \<Rightarrow> string \<Rightarrow> int option" where
  "dit_loop tree depth current =
     (case tree current of
        None \<Rightarrow> Some depth
      | Some parent \<Rightarrow> dit_loop tree (depth + 1) parent)"

declare dit_loop.simps [code]

definition calculate_dit :: "analyzer \<Rightarrow> string \<Rightarrow> int option" where
  "calculate_dit self class_name = dit_loop (inheritance_tree self) 0 class_name"

subsection \<open>Coupling between objects\<close>

text \<open>
  \<^verbatim>\<open>return len(self.coupling[class_name])\<close>. The subscript is on a \<^verbatim>\<open>defaultdict(set)\<close>, so the
  function returns the analyzer after the access as well.
\<close>

definition calculate_cbo :: "analyzer \<Rightarrow> string \<Rightarrow> int \<times> analyzer" where
  "calculate_cbo self class_name =
     (let (s, coupling') = dd_getitem {} (coupling self) class_name
      in (int (card s), self\<lparr>coupling := coupling'\<rparr>))"

subsection \<open>Lack of cohesion of methods\<close>

text \<open>
  The function returns the float \<^verbatim>\<open>0.0\<close> for a class of at most one method and the integer
  \<^verbatim>\<open>max(p - q, 0)\<close> otherwise; the two print differently in the report.
\<close>

datatype pynum = PyInt int | PyFloat_zero

fun num_value :: "pynum \<Rightarrow> int" where
  "num_value (PyInt i) = i"
| "num_value PyFloat_zero = 0"

text \<open>The body of the inner loop: one pair of methods.\<close>

definition lcom_pair :: "(string \<rightharpoonup> string set) \<Rightarrow> string \<Rightarrow> string \<Rightarrow> int \<times> int \<Rightarrow> int \<times> int" where
  "lcom_pair method_attrs method1 method2 pq =
     (let attrs1 = dict_get method_attrs method1 {};
          attrs2 = dict_get method_attrs method2 {}
      in if attrs1 \<inter> attrs2 \<noteq> {} then (fst pq, snd pq + 1) else (fst pq + 1, snd pq))"

text \<open>
  \<^verbatim>\<open>
  for i, method1 in enumerate(methods):
      for method2 in methods[i+1:]:
          ...
  \<close>
  The state of the loops is the pair \<open>(p, q)\<close>.
\<close>

definition lcom_loops :: "(string \<rightharpoonup> string set) \<Rightarrow> string list \<Rightarrow> int \<times> int" where
  "lcom_loops method_attrs ms =
     fold (\<lambda>(i, method1) pq. fold (lcom_pair method_attrs method1) (drop (i + 1) ms) pq)
          (enumerate 0 ms) (0, 0)"

definition calculate_lcom :: "analyzer \<Rightarrow> string \<Rightarrow> pynum \<times> analyzer" where
  "calculate_lcom self class_name =
     (let (ms, methods_per_class') = dd_getitem [] (methods_per_class self) class_name;
          self1 = self\<lparr>methods_per_class := methods_per_class'\<rparr>
      in if length ms \<le> 1 then (PyFloat_zero, self1)
         else
           (let (method_attrs, usage') =
                  dd_getitem Map.empty (method_attribute_usage self1) class_name;
                self2 = self1\<lparr>method_attribute_usage := usage'\<rparr>;
                (p, q) = lcom_loops method_attrs ms
            in (PyInt (max (p - q) 0), self2)))"

subsection \<open>The class model builder\<close>

text \<open>
  \<^verbatim>\<open>ast.walk(node)\<close>: breadth first, from a queue that starts as \<^verbatim>\<open>[node]\<close>; each node
  taken from the left has its children appended on the right.
\<close>

lemma size_iter_child_nodes: "size_list size (iter_child_nodes n) \<le> size n"
  by (cases n) simp_all

lemma size_children_less: "4 * size_list size (iter_child_nodes n) < Suc (4 * size n)"
  using size_iter_child_nodes [of n] by simp

function walk_queue :: "node list \<Rightarrow> node list" where
  "walk_queue [] = []"
| "walk_queue (n # todo) = n # walk_queue (todo @ iter_child_nodes n)"
  by pat_completeness auto
termination
proof (relation "measure (size_list size)")
  fix n :: node and todo :: "node list"
  show "(todo @ iter_child_nodes n, n # todo) \<in> measure (size_list size)"
    using size_iter_child_nodes [of n] by simp
qed simp

definition walk :: "node \<Rightarrow> node list" where
  "walk n = walk_queue [n]"

text \<open>\<^verbatim>\<open>d[k].add(x)\<close> on a \<^verbatim>\<open>defaultdict(set)\<close>.\<close>

definition dd_add :: "('k \<rightharpoonup> 'v set) \<Rightarrow> 'k \<Rightarrow> 'v \<Rightarrow> ('k \<rightharpoonup> 'v set)" where
  "dd_add d k x = (let (s, d') = dd_getitem {} d k in d'(k \<mapsto> insert x s))"

text \<open>
  \<^verbatim>\<open>self.method_attribute_usage[class_name][method_name].add(attr_name)\<close>: a
  \<^verbatim>\<open>defaultdict\<close> of \<^verbatim>\<open>defaultdict(set)\<close>.
\<close>

definition usage_add ::
  "(string \<rightharpoonup> (string \<rightharpoonup> string set)) \<Rightarrow> string \<Rightarrow> string \<Rightarrow> string \<Rightarrow>
   (string \<rightharpoonup> (string \<rightharpoonup> string set))" where
  "usage_add u class_name method_name attr_name =
     (let (inner, u') = dd_getitem Map.empty u class_name
      in u'(class_name \<mapsto> dd_add inner method_name attr_name))"

text \<open>The names that count as coupling, as the list literal in \<^verbatim>\<open>analyze_method\<close>.\<close>

definition known_classes :: "string list" where
  "known_classes = [''Student'', ''Course'', ''Lecturer'', ''Registrar'', ''Person'']"

text \<open>
  The first \<^verbatim>\<open>if\<close> of the loop body of \<^verbatim>\<open>analyze_method\<close>: an attribute read or written
  through the name \<^verbatim>\<open>self\<close>.
\<close>

fun record_attribute :: "string \<Rightarrow> string \<Rightarrow> node \<Rightarrow> analyzer \<Rightarrow> analyzer" where
  "record_attribute class_name method_name (Attribute (Name v) attr_name) self =
     (if v = ''self''
      then self\<lparr>attributes_per_class := dd_add (attributes_per_class self) class_name attr_name,
                method_attribute_usage :=
                  usage_add (method_attribute_usage self) class_name method_name attr_name\<rparr>
      else self)"
| "record_attribute class_name method_name n self = self"

text \<open>The second \<^verbatim>\<open>if\<close>: a plain identifier that is one of the known class names.\<close>

fun record_coupling :: "string \<Rightarrow> node \<Rightarrow> analyzer \<Rightarrow> analyzer" where
  "record_coupling class_name (Name x) self =
     (if x \<in> set known_classes
      then (if x \<noteq> class_name
            then self\<lparr>coupling := dd_add (coupling self) class_name x\<rparr>
            else self)
      else self)"
| "record_coupling class_name n self = self"

text \<open>
  The loop body; the third \<^verbatim>\<open>if\<close> of the source only holds \<^verbatim>\<open>pass\<close>.
\<close>

definition analyze_node :: "string \<Rightarrow> string \<Rightarrow> node \<Rightarrow> analyzer \<Rightarrow> analyzer" where
  "analyze_node class_name method_name n self =
     record_coupling class_name n (record_attribute class_name method_name n self)"

text \<open>
  \<^verbatim>\<open>analyze_method(class_name, method_node)\<close>; \<open>method_name\<close> is \<^verbatim>\<open>method_node.name\<close>.
\<close>

definition analyze_method :: "analyzer \<Rightarrow> string \<Rightarrow> string \<Rightarrow> node \<Rightarrow> analyzer" where
  "analyze_method self class_name method_name method_node =
     fold (analyze_node class_name method_name) (walk method_node) self"

text \<open>
  The parts of \<^verbatim>\<open>visit_ClassDef\<close> before its call of \<^verbatim>\<open>generic_visit\<close>. First the entry of
  \<^verbatim>\<open>self.classes\<close>.
\<close>

fun base_name :: "node \<Rightarrow> string" where
  "base_name (Name x) = x"
| "base_name b = ''object''"

definition register_class :: "analyzer \<Rightarrow> string \<Rightarrow> node list \<Rightarrow> node list \<Rightarrow> analyzer" where
  "register_class self name bases body =
     self\<lparr>current_class := Some name,
          classes := (classes self)(name \<mapsto>
            \<lparr>methods = [], attributes = {}, base_classes = map base_name bases,
             lines = length body\<rparr>)\<rparr>"

text \<open>
  \<^verbatim>\<open>
  for base in node.bases:
      if isinstance(base, ast.Name):
          self.inheritance_tree[node.name] = base.id
  \<close>
\<close>

fun store_base :: "string \<Rightarrow> node \<Rightarrow> analyzer \<Rightarrow> analyzer" where
  "store_base name (Name x) self = self\<lparr>inheritance_tree := (inheritance_tree self)(name \<mapsto> x)\<rparr>"
| "store_base name b self = self"

definition store_inheritance :: "analyzer \<Rightarrow> string \<Rightarrow> node list \<Rightarrow> analyzer" where
  "store_inheritance self name bases = fold (store_base name) bases self"

text \<open>
  \<^verbatim>\<open>
  for item in node.body:
      if isinstance(item, ast.FunctionDef):
          self.classes[node.name]['methods'].append(item.name)
          self.methods_per_class[node.name].append(item.name)
          self.analyze_method(node.name, item)
  \<close>
  The entry \<^verbatim>\<open>self.classes[node.name]\<close> was stored at the start of \<^verbatim>\<open>visit_ClassDef\<close> and
  nothing removes it, so the subscript finds it; the model leaves \<open>classes\<close> alone where
  it would not.
\<close>

definition append_method :: "analyzer \<Rightarrow> string \<Rightarrow> string \<Rightarrow> analyzer" where
  "append_method self name f =
     (let self1 = (case classes self name of
                     None \<Rightarrow> self
                   | Some info \<Rightarrow>
                       self\<lparr>classes := (classes self)(name \<mapsto> info\<lparr>methods := methods info @ [f]\<rparr>)\<rparr>);
          (ms, mpc) = dd_getitem [] (methods_per_class self1) name
      in self1\<lparr>methods_per_class := mpc(name \<mapsto> ms @ [f])\<rparr>)"

fun visit_item :: "string \<Rightarrow> node \<Rightarrow> analyzer \<Rightarrow> analyzer" where
  "visit_item name (FunctionDef f cs) self =
     analyze_method (append_method self name f) name f (FunctionDef f cs)"
| "visit_item name item self = self"

definition visit_methods :: "analyzer \<Rightarrow> string \<Rightarrow> node list \<Rightarrow> analyzer" where
  "visit_methods self name body = fold (visit_item name) body self"

text \<open>
  The visitor. \<^verbatim>\<open>visit\<close> dispatches on the class of the node: \<^verbatim>\<open>visit_ClassDef\<close> is the only
  method the analyzer defines, so every other node goes to \<^verbatim>\<open>generic_visit\<close>, which visits
  the children in order (\<open>visit_each\<close> is its loop).
\<close>

function (sequential)
  visit :: "analyzer \<Rightarrow> node \<Rightarrow> analyzer" and
  visit_ClassDef :: "analyzer \<Rightarrow> node \<Rightarrow> analyzer" and
  generic_visit :: "analyzer \<Rightarrow> node \<Rightarrow> analyzer" and
  visit_each :: "analyzer \<Rightarrow> node list \<Rightarrow> analyzer"
where
  "visit self (ClassDef name bases keywords body decorators) =
     visit_ClassDef self (ClassDef name bases keywords body decorators)"
| "visit self n = generic_visit self n"
| "visit_ClassDef self (ClassDef name bases keywords body decorators) =
     (let self1 = register_class self name bases body;
          self2 = store_inheritance self1 name bases;
          self3 = visit_methods self2 name body;
          self4 = generic_visit self3 (ClassDef name bases keywords body decorators)
      in self4\<lparr>current_class := None\<rparr>)"
| "visit_ClassDef self n = self"
| "generic_visit self n = visit_each self (iter_child_nodes n)"
| "visit_each self [] = self"
| "visit_each self (child # rest) = visit_each (visit self child) rest"
  by pat_completeness auto
termination
  by (relation "measure (\<lambda>x. case x of
          Inl (Inl (self, n)) \<Rightarrow> 4 * size n + 3
        | Inl (Inr (self, n)) \<Rightarrow> 4 * size n + 2
        | Inr (Inl (self, n)) \<Rightarrow> 4 * size n + 1
        | Inr (Inr (self, cs)) \<Rightarrow> 4 * size_list size cs)")
     (simp_all add: size_children_less)

text \<open>\<^verbatim>\<open>analyzer = MetricsAnalyzer(); analyzer.visit(tree)\<close>, as in \<^verbatim>\<open>analyze_file\<close>.\<close>

definition analyze :: "node \<Rightarrow> analyzer" where
  "analyze tree = visit init tree"

subsection \<open>The report\<close>

text \<open>\<^verbatim>\<open>sep.join(xs)\<close>.\<close>

fun join :: "string \<Rightarrow> string list \<Rightarrow> string" where
  "join sep [] = []"
| "join sep [x] = x"
| "join sep (x # y # ys) = x @ sep @ join sep (y # ys)"

text \<open>\<^verbatim>\<open>str(n)\<close> for an integer: its decimal digits, with a sign when negative.\<close>

definition digit_char :: "nat \<Rightarrow> char" where
  "digit_char d = char_of (48 + d)"

function str_nat :: "nat \<Rightarrow> string" where
  "str_nat n = (if n < 10 then [digit_char n] else str_nat (n div 10) @ [digit_char (n mod 10)])"
  by pat_completeness auto
termination
  by (relation "measure id") auto

definition str_int :: "int \<Rightarrow> string" where
  "str_int i = (if i < 0 then CHR ''-'' # str_nat (nat (- i)) else str_nat (nat i))"

text \<open>
  The format specification \<^verbatim>\<open>{x:w}\<close> of an f-string: a string is padded on the right to
  width \<open>w\<close>, a number on the left; neither is cut. The float \<^verbatim>\<open>0.0\<close> prints as \<^verbatim>\<open>0.0\<close>.
\<close>

definition format_str :: "nat \<Rightarrow> string \<Rightarrow> string" where
  "format_str w s = s @ replicate (w - length s) (CHR '' '')"

definition format_int :: "nat \<Rightarrow> int \<Rightarrow> string" where
  "format_int w i = replicate (w - length (str_int i)) (CHR '' '') @ str_int i"

fun format_num :: "nat \<Rightarrow> pynum \<Rightarrow> string" where
  "format_num w (PyInt i) = format_int w i"
| "format_num w PyFloat_zero = replicate (w - 3) (CHR '' '') @ ''0.0''"

text \<open>
  The sign U+2717 that starts four lines of the last section, as the three bytes of its
  UTF-8 encoding, in which the report is written to its file.
\<close>

definition ballot_x :: string where
  "ballot_x = [CHR 0xE2, CHR 0x9C, CHR 0x97]"

text \<open>The lines that \<^verbatim>\<open>generate_report\<close> appends as literals, section by section.\<close>

definition report_title :: "string list" where
  "report_title =
     [replicate 80 (CHR ''=''),
      ''PART A: METRICS ANALYSIS - ORIGINAL CODE'',
      replicate 80 (CHR ''=''),
      '''']"

definition cc_section :: "string list" where
  "cc_section =
     [''1. CYCLOMATIC COMPLEXITY (CC)'',
      replicate 80 (CHR ''-''),
      ''Method/Function                              | CC  | Grade | Issues'',
      replicate 80 (CHR ''-''),
      ''Student.calculate_performance                | 17  | C     | HIGH - Needs refactoring'',
      ''Student.register_course                      | 3   | A     | OK'',
      ''Registrar.full_report                        | 4   | A     | OK'',
      ''main()                                       | 1   | A     | OK (but long)'',
      '''']"

definition loc_section :: "string list" where
  "loc_section =
     [''2. LINES OF CODE (LOC)'',
      replicate 80 (CHR ''-''),
      ''Total LOC:                174'',
      ''Logical LOC (LLOC):       132'',
      ''Source LOC (SLOC):        126'',
      ''Comments:                 0 (0%)'',
      '''']"

definition oo_header :: "string list" where
  "oo_header =
     [''3. OBJECT-ORIENTED METRICS'',
      replicate 80 (CHR ''-''),
      ''Class      | DIT | CBO | LCOM | Methods | Attributes | Issues'',
      replicate 80 (CHR ''-'')]"

definition problem_section :: "string list" where
  "problem_section =
     ['''',
      ''4. PROBLEM AREAS IDENTIFIED'',
      replicate 80 (CHR ''-''),
      ballot_x @ '' Student.calculate_performance: CC=17 (should be < 10)'',
      ''  - Too many conditional branches'',
      ''  - Mixing GPA calculation and attendance calculation'',
      ''  - Performance evaluation logic embedded'',
      '''',
      ballot_x @ '' High coupling between classes:'',
      ''  - Course directly modifies Student (bidirectional coupling)'',
      ''  - Lecturer directly modifies Student grades'',
      ''  - Registrar depends on all other classes'',
      '''',
      ballot_x @ '' Low cohesion in Student class:'',
      ''  - Mixing data storage, business logic, and presentation'',
      ''  - calculate_performance does too many things'',
      '''',
      ballot_x @ '' Lack of abstraction:'',
      ''  - Grade calculation logic hard-coded'',
      ''  - No separation of concerns'',
      ''  - Direct attribute access violates encapsulation'',
      '''']"

text \<open>
  \<^verbatim>\<open>
  issues = []
  if cbo > 3: issues.append("High coupling")
  if lcom > 5: issues.append("Low cohesion")
  if methods > 7: issues.append("Too many methods")
  issue_str = ", ".join(issues) if issues else "OK"
  \<close>
\<close>

definition issues :: "int \<Rightarrow> pynum \<Rightarrow> nat \<Rightarrow> string list" where
  "issues cbo lcom n_methods =
     (if cbo > 3 then [''High coupling''] else []) @
     (if num_value lcom > 5 then [''Low cohesion''] else []) @
     (if n_methods > 7 then [''Too many methods''] else [])"

definition issue_str :: "int \<Rightarrow> pynum \<Rightarrow> nat \<Rightarrow> string" where
  "issue_str cbo lcom n_methods =
     (if issues cbo lcom n_methods \<noteq> [] then join '', '' (issues cbo lcom n_methods)
      else ''OK'')"

text \<open>
  The body of the loop over the five class names: the lines it appends and the analyzer
  after it, or \<open>None\<close> when \<^verbatim>\<open>calculate_dit\<close> does not return. The subscripts of
  \<^verbatim>\<open>methods_per_class\<close> and \<^verbatim>\<open>attributes_per_class\<close> are on \<^verbatim>\<open>defaultdict\<close>s.
\<close>

definition report_row :: "analyzer \<Rightarrow> string \<Rightarrow> (string list \<times> analyzer) option" where
  "report_row self class_name =
     (if class_name \<in> dom (classes self)
      then (case calculate_dit self class_name of
              None \<Rightarrow> None
            | Some dit \<Rightarrow>
                (let (cbo, self1) = calculate_cbo self class_name;
                     (lcom, self2) = calculate_lcom self1 class_name;
                     (ms, mpc) = dd_getitem [] (methods_per_class self2) class_name;
                     self3 = self2\<lparr>methods_per_class := mpc\<rparr>;
                     n_methods = length ms;
                     (as, apc) = dd_getitem {} (attributes_per_class self3) class_name;
                     self4 = self3\<lparr>attributes_per_class := apc\<rparr>;
                     attrs = card as
                 in Some ([format_str 10 class_name @ '' | '' @ format_int 3 dit @ '' | '' @
                           format_int 3 cbo @ '' | '' @ format_num 4 lcom @ '' | '' @
                           format_int 7 (int n_methods) @ '' | '' @
                           format_int 10 (int attrs) @ '' | '' @
                           issue_str cbo lcom n_methods], self4)))
      else Some ([], self))"

fun report_rows :: "analyzer \<Rightarrow> string list \<Rightarrow> (string list \<times> analyzer) option" where
  "report_rows self [] = Some ([], self)"
| "report_rows self (class_name # rest) =
     (case report_row self class_name of
        None \<Rightarrow> None
      | Some (row, self1) \<Rightarrow>
          (case report_rows self1 rest of
             None \<Rightarrow> None
           | Some (rows, self2) \<Rightarrow> Some (row @ rows, self2)))"

definition reported_classes :: "string list" where
  "reported_classes = [''Person'', ''Student'', ''Course'', ''Lecturer'', ''Registrar'']"

text \<open>The list \<^verbatim>\<open>report\<close> when \<^verbatim>\<open>generate_report\<close> reaches its \<^verbatim>\<open>return\<close>.\<close>

definition report_lines :: "analyzer \<Rightarrow> (string list \<times> analyzer) option" where
  "report_lines self =
     (case report_rows self reported_classes of
        None \<Rightarrow> None
      | Some (rows, self1) \<Rightarrow>
          Some (report_title @ cc_section @ loc_section @ oo_header @ rows @ problem_section,
                self1))"

text \<open>\<^verbatim>\<open>generate_report\<close>: the text, and the analyzer after the metric calls.\<close>

definition generate_report :: "analyzer \<Rightarrow> (string \<times> analyzer) option" where
  "generate_report self =
     (case report_lines self of
        None \<Rightarrow> None
      | Some (ls, self1) \<Rightarrow> Some (join [CHR 0x0A] ls, self1))"

section \<open>Notions for stating the properties\<close>

subsection \<open>Chains of parent links\<close>

text \<open>
  \<open>parent_chain tree c ps\<close>: the parent links recorded in \<open>tree\<close> lead from \<open>c\<close> through the
  names \<open>ps\<close>, one link each, and the last name reached has no recorded parent. Such a chain
  has \<open>length ps\<close> links.
\<close>

fun parent_chain :: "(string \<rightharpoonup> string) \<Rightarrow> string \<Rightarrow> string list \<Rightarrow> bool" where
  "parent_chain tree c [] = (tree c = None)"
| "parent_chain tree c (p # ps) = (tree c = Some p \<and> parent_chain tree p ps)"

text \<open>The name reached from \<open>c\<close> after \<open>k\<close> parent links, if there are that many.\<close>

fun ancestor :: "(string \<rightharpoonup> string) \<Rightarrow> nat \<Rightarrow> string \<Rightarrow> string option" where
  "ancestor tree 0 c = Some c"
| "ancestor tree (Suc k) c = (case tree c of None \<Rightarrow> None | Some p \<Rightarrow> ancestor tree k p)"

text \<open>The traversal from \<open>c\<close> comes to a name it has already seen.\<close>

definition revisits :: "(string \<rightharpoonup> string) \<Rightarrow> string \<Rightarrow> bool" where
  "revisits tree c =
     (\<exists>i j x. i < j \<and> ancestor tree i c = Some x \<and> ancestor tree j c = Some x)"

subsection \<open>Example modules\<close>

text \<open>
  \<^verbatim>\<open>
  class A(B): pass
  class B(A): pass
  \<close>
  (the statement \<^verbatim>\<open>pass\<close> has no effect on the analyzer and is left out of the bodies).
\<close>

definition cyclic_module :: node where
  "cyclic_module = Other ''Module''
     [ClassDef ''A'' [Name ''B''] [] [] [], ClassDef ''B'' [Name ''A''] [] [] []]"


text \<open>
  \<^verbatim>\<open>
  class Person: pass
  class Student(Person): pass
  class Graduate(Student): pass
  \<close>
\<close>

definition three_level_module :: node where
  "three_level_module = Other ''Module''
     [ClassDef ''Person'' [] [] [] [],
      ClassDef ''Student'' [Name ''Person''] [] [] [],
      ClassDef ''Graduate'' [Name ''Student''] [] [] []]"

text \<open>
  \<^verbatim>\<open>
  class Student:
      def register_course(self, course):
          self.courses.append(course)
      def add_grade(self, grade):
          self.grades.append(grade)
  \<close>
\<close>

definition cohesion_module :: node where
  "cohesion_module = Other ''Module''
     [ClassDef ''Student'' [] []
        [FunctionDef ''register_course''
           [Other ''arguments'' [Other ''arg'' [], Other ''arg'' []],
            Other ''Expr'' [Other ''Call''
              [Attribute (Attribute (Name ''self'') ''courses'') ''append'', Name ''course'']]],
         FunctionDef ''add_grade''
           [Other ''arguments'' [Other ''arg'' [], Other ''arg'' []],
            Other ''Expr'' [Other ''Call''
              [Attribute (Attribute (Name ''self'') ''grades'') ''append'', Name ''grade'']]]]
        []]"

subsection \<open>Pairs of methods\<close>

text \<open>
  Every unordered pair of distinct methods of a class, each once: the methods at the
  positions \<open>i < j\<close> of the list of its declared methods. A name declared twice stands at two
  positions and so in pairs of its own.
\<close>

definition method_pairs :: "'a list \<Rightarrow> ('a \<times> 'a) list" where
  "method_pairs ms = [(ms ! i, ms ! j). i \<leftarrow> [0..<length ms], j \<leftarrow> [Suc i..<length ms]]"

text \<open>The attribute sets of the two methods of a pair have a common element.\<close>

definition shares_attribute :: "(string \<rightharpoonup> string set) \<Rightarrow> string \<times> string \<Rightarrow> bool" where
  "shares_attribute method_attrs pr =
     (dict_get method_attrs (fst pr) {} \<inter> dict_get method_attrs (snd pr) {} \<noteq> {})"

text \<open>The numbers \<open>Q\<close> and \<open>P\<close> of the definition of LCOM.\<close>

definition cohesive_pairs :: "(string \<rightharpoonup> string set) \<Rightarrow> string list \<Rightarrow> int" where
  "cohesive_pairs method_attrs ms =
     int (length (filter (shares_attribute method_attrs) (method_pairs ms)))"

definition non_cohesive_pairs :: "(string \<rightharpoonup> string set) \<Rightarrow> string list \<Rightarrow> int" where
  "non_cohesive_pairs method_attrs ms =
     int (length (filter (\<lambda>pr. \<not> shares_attribute method_attrs pr) (method_pairs ms)))"

subsection \<open>A threshold evaluator with a configuration\<close>

text \<open>
  The evaluator as the specification describes it, for comparison with the analyzer's:
  three named thresholds, each of which a caller may set, and three flags.
\<close>

record config =
  cboHighCoupling :: int
  lcomLowCohesion :: int
  maxMethodCount :: nat

definition default_config :: config where
  "default_config = \<lparr>cboHighCoupling = 3, lcomLowCohesion = 5, maxMethodCount = 7\<rparr>"

datatype flag = HighCoupling | LowCohesion | TooManyMethods

text \<open>The text the report prints for a flag.\<close>

fun flag_label :: "flag \<Rightarrow> string" where
  "flag_label HighCoupling = ''High coupling''"
| "flag_label LowCohesion = ''Low cohesion''"
| "flag_label TooManyMethods = ''Too many methods''"

definition spec_evaluate :: "config \<Rightarrow> int \<Rightarrow> int \<Rightarrow> nat \<Rightarrow> flag list" where
  "spec_evaluate cfg cbo lcom n_methods =
     (if cbo > cboHighCoupling cfg then [HighCoupling] else []) @
     (if lcom > lcomLowCohesion cfg then [LowCohesion] else []) @
     (if n_methods > maxMethodCount cfg then [TooManyMethods] else [])"

subsection \<open>The classes of a tree\<close>

text \<open>
  The names of the class declarations in a tree, nested ones included: the visitor reaches
  every node, so these are the names that \<^verbatim>\<open>visit_ClassDef\<close> sees.
\<close>

fun class_names :: "node \<Rightarrow> string set" where
  "class_names (Name x) = {}"
| "class_names (Attribute v a) = class_names v"
| "class_names (FunctionDef f cs) = (\<Union>n \<in> set cs. class_names n)"
| "class_names (ClassDef c bases keywords body decorators) =
     insert c ((\<Union>n \<in> set bases. class_names n) \<union> (\<Union>n \<in> set keywords. class_names n) \<union>
               (\<Union>n \<in> set body. class_names n) \<union> (\<Union>n \<in> set decorators. class_names n))"
| "class_names (Other kind cs) = (\<Union>n \<in> set cs. class_names n)"

text \<open>All nodes of a tree.\<close>

fun subnodes :: "node \<Rightarrow> node set" where
  "subnodes (Name x) = {Name x}"
| "subnodes (Attribute v a) = insert (Attribute v a) (subnodes v)"
| "subnodes (FunctionDef f cs) = insert (FunctionDef f cs) (\<Union>n \<in> set cs. subnodes n)"
| "subnodes (ClassDef c bases keywords body decorators) =
     insert (ClassDef c bases keywords body decorators)
       ((\<Union>n \<in> set bases. subnodes n) \<union> (\<Union>n \<in> set keywords. subnodes n) \<union>
        (\<Union>n \<in> set body. subnodes n) \<union> (\<Union>n \<in> set decorators. subnodes n))"
| "subnodes (Other kind cs) = insert (Other kind cs) (\<Union>n \<in> set cs. subnodes n)"

text \<open>Two analyzers hold the same for the class name \<open>c\<close>.\<close>

definition same_entries :: "string \<Rightarrow> analyzer \<Rightarrow> analyzer \<Rightarrow> bool" where
  "same_entries c s s' =
     (classes s' c = classes s c \<and> inheritance_tree s' c = inheritance_tree s c \<and>
      coupling s' c = coupling s c \<and> methods_per_class s' c = methods_per_class s c)"



section \<open>Properties\<close>

subsection \<open>Depth of inheritance tree\<close>

lemma dit_loop_chain:
  "parent_chain tree c ps \<Longrightarrow> dit_loop tree d c = Some (d + int (length ps))"
proof (induction ps arbitrary: c d)
  case Nil
  then show ?case by (subst dit_loop.simps) simp
next
  case (Cons p ps)
  then have "dit_loop tree (d + 1) p = Some (d + 1 + int (length ps))" by simp
  with Cons.prems show ?case by (subst dit_loop.simps) simp
qed

lemma dit_loop_Some:
  assumes "dit_loop tree d c = Some r"
  shows "\<exists>ps. parent_chain tree c ps \<and> r = d + int (length ps)"
proof -
  have step: "\<exists>ps. parent_chain t c' ps \<and> r' = d' + int (length ps)"
    if ih: "\<And>t d c r. f t d c = Some r \<Longrightarrow> \<exists>ps. parent_chain t c ps \<and> r = d + int (length ps)"
      and eq: "(case t c' of None \<Rightarrow> Some d' | Some parent \<Rightarrow> f t (d' + 1) parent) = Some r'"
    for f :: "(string \<rightharpoonup> string) \<Rightarrow> int \<Rightarrow> string \<Rightarrow> int option" and t d' c' r'
  proof (cases "t c'")
    case None
    with eq have "r' = d'" by simp
    with None show ?thesis by (intro exI [of _ "[]"]) simp
  next
    case (Some p)
    with eq have "f t (d' + 1) p = Some r'" by simp
    from ih [OF this] obtain ps where "parent_chain t p ps" "r' = d' + 1 + int (length ps)"
      by blast
    with Some show ?thesis by (intro exI [of _ "p # ps"]) simp
  qed
  show ?thesis
    by (rule dit_loop.raw_induct
          [where P = "\<lambda>t d c r. \<exists>ps. parent_chain t c ps \<and> r = d + int (length ps)",
           OF step assms])
qed

lemma parent_chain_unique:
  "parent_chain tree c ps \<Longrightarrow> parent_chain tree c qs \<Longrightarrow> ps = qs"
proof (induction ps arbitrary: c qs)
  case Nil
  then show ?case by (cases qs) simp_all
next
  case (Cons p ps)
  then show ?case by (cases qs) auto
qed

lemma parent_chain_ancestor:
  "parent_chain tree c ps \<Longrightarrow> ancestor tree k c = Some x \<Longrightarrow>
   k \<le> length ps \<and> parent_chain tree x (drop k ps)"
proof (induction k arbitrary: c ps)
  case 0
  then show ?case by simp
next
  case (Suc k)
  then show ?case by (cases ps) (auto split: option.splits)
qed

lemma revisits_no_chain: "revisits tree c \<Longrightarrow> \<not> parent_chain tree c ps"
proof
  assume r: "revisits tree c" and p: "parent_chain tree c ps"
  from r obtain i j x where ij: "i < j" and ai: "ancestor tree i c = Some x"
    and aj: "ancestor tree j c = Some x" unfolding revisits_def by blast
  from parent_chain_ancestor [OF p ai] parent_chain_ancestor [OF p aj]
  have "i \<le> length ps" "j \<le> length ps" "parent_chain tree x (drop i ps)"
    "parent_chain tree x (drop j ps)" by simp_all
  then have "drop i ps = drop j ps" using parent_chain_unique by blast
  then have "length ps - i = length ps - j" by (metis length_drop)
  with ij \<open>j \<le> length ps\<close> show False by arith
qed

lemma ancestor_Suc_right:
  "ancestor tree (Suc k) c = (case ancestor tree k c of None \<Rightarrow> None | Some x \<Rightarrow> tree x)"
proof (induction k arbitrary: c)
  case 0
  then show ?case by (simp split: option.splits)
next
  case (Suc k)
  show ?case
  proof (cases "tree c")
    case None
    then show ?thesis by simp
  next
    case (Some p)
    have "ancestor tree (Suc (Suc k)) c = ancestor tree (Suc k) p"
      using Some by simp
    also have "\<dots> = (case ancestor tree k p of None \<Rightarrow> None | Some x \<Rightarrow> tree x)"
      by (rule Suc.IH)
    also have "ancestor tree k p = ancestor tree (Suc k) c"
      using Some by simp
    finally show ?thesis .
  qed
qed

lemma chain_from_ancestor:
  "ancestor tree k c = Some x \<Longrightarrow> tree x = None \<Longrightarrow> \<exists>ps. parent_chain tree c ps"
proof (induction k arbitrary: c)
  case 0
  then show ?case by (intro exI [of _ "[]"]) simp
next
  case (Suc k)
  from Suc.prems(1) obtain p where p: "tree c = Some p" "ancestor tree k p = Some x"
    by (auto split: option.splits)
  from Suc.IH [OF p(2) Suc.prems(2)] obtain ps where "parent_chain tree p ps" ..
  with p(1) show ?case by (intro exI [of _ "p # ps"]) simp
qed

lemma no_chain_ancestors:
  assumes "\<nexists>ps. parent_chain tree c ps"
  shows "\<exists>x. ancestor tree k c = Some x \<and> x \<in> dom tree"
proof (induction k)
  case 0
  from assms have "tree c \<noteq> None" using chain_from_ancestor [of tree 0 c c] by auto
  then show ?case by auto
next
  case (Suc k)
  then obtain x y where x: "ancestor tree k c = Some x" "tree x = Some y" by auto
  then have y: "ancestor tree (Suc k) c = Some y" by (subst ancestor_Suc_right) simp
  with assms have "tree y \<noteq> None" using chain_from_ancestor by blast
  with y show ?case by auto
qed

text \<open>
  A dictionary has finitely many keys, so a traversal that never ends must come back to a
  name (pigeonhole).
\<close>

lemma finite_no_revisit_chain:
  assumes fin: "finite (dom tree)" and nr: "\<not> revisits tree c"
  shows "\<exists>ps. parent_chain tree c ps"
proof (rule ccontr)
  assume nc: "\<nexists>ps. parent_chain tree c ps"
  define a where "a k = the (ancestor tree k c)" for k
  have a: "ancestor tree k c = Some (a k) \<and> a k \<in> dom tree" for k
    using no_chain_ancestors [OF nc, of k] by (auto simp: a_def)
  then have "range a \<subseteq> dom tree" by auto
  with fin have "finite (range a)" by (rule finite_subset [rotated])
  then have "\<not> inj a" using finite_imageD infinite_UNIV_nat by blast
  then obtain i j where ij: "i \<noteq> j" "a i = a j" by (auto simp: inj_on_def)
  then consider "i < j" | "j < i" by arith
  then have "revisits tree c"
  proof cases
    case 1
    with ij a [of i] a [of j] show ?thesis unfolding revisits_def by metis
  next
    case 2
    with ij a [of i] a [of j] show ?thesis unfolding revisits_def by metis
  qed
  with nr show False ..
qed

lemma dit_loop_revisits: "revisits tree c \<Longrightarrow> dit_loop tree d c = None"
proof (rule ccontr)
  assume r: "revisits tree c" and "dit_loop tree d c \<noteq> None"
  then obtain n where "dit_loop tree d c = Some n" by auto
  from dit_loop_Some [OF this] revisits_no_chain [OF r] show False by blast
qed

lemma cyclic_module_tree:
  "inheritance_tree (analyze cyclic_module) = [''A'' \<mapsto> ''B'', ''B'' \<mapsto> ''A'']"
  by (simp add: cyclic_module_def analyze_def init_def register_class_def
        store_inheritance_def visit_methods_def)

lemma cyclic_module_revisits: "revisits (inheritance_tree (analyze cyclic_module)) ''A''"
  unfolding revisits_def cyclic_module_tree
  by (intro exI [of _ 0] exI [of _ 2] exI [of _ "''A''"]) (simp add: numeral_2_eq_2)

lemma three_level_module_tree:
  "inheritance_tree (analyze three_level_module) =
     [''Student'' \<mapsto> ''Person'', ''Graduate'' \<mapsto> ''Student'']"
  by (simp add: three_level_module_def analyze_def init_def register_class_def
        store_inheritance_def visit_methods_def)

lemma three_level_module_chain:
  "parent_chain (inheritance_tree (analyze three_level_module)) ''Graduate''
     [''Student'', ''Person'']"
  by (simp add: three_level_module_tree)



text \<open>
  C1 (amended). \<^verbatim>\<open>calculate_dit\<close> has no check for a name seen before. On an inheritance
  mapping with finitely many keys it returns exactly when the traversal from the class never
  comes back to a name: then the result is the number of parent links followed, a
  non-negative integer. When the traversal revisits a name, the loop runs forever.
\<close>

theorem calculate_dit_returns_iff_no_revisit:
  assumes "finite (dom (inheritance_tree self))"
  shows "(revisits (inheritance_tree self) c \<and> calculate_dit self c = None) \<or>
         (\<not> revisits (inheritance_tree self) c \<and>
          (\<exists>ps. parent_chain (inheritance_tree self) c ps \<and>
                calculate_dit self c = Some (int (length ps))))"
proof (cases "revisits (inheritance_tree self) c")
  case True
  then show ?thesis by (simp add: calculate_dit_def dit_loop_revisits)
next
  case False
  from finite_no_revisit_chain [OF assms False]
  obtain ps where "parent_chain (inheritance_tree self) c ps" ..
  with False show ?thesis
    unfolding calculate_dit_def using dit_loop_chain [of _ _ ps 0] by auto
qed

theorem calculate_dit_returns_iff_no_revisit_witness:
  "finite (dom (inheritance_tree (analyze cyclic_module))) \<and>
   revisits (inheritance_tree (analyze cyclic_module)) ''A'' \<and>
   calculate_dit (analyze cyclic_module) ''A'' = None \<and>
   finite (dom (inheritance_tree (analyze three_level_module))) \<and>
   \<not> revisits (inheritance_tree (analyze three_level_module)) ''Graduate'' \<and>
   calculate_dit (analyze three_level_module) ''Graduate'' = Some 2"
proof -
  have f1: "finite (dom (inheritance_tree (analyze cyclic_module)))"
    by (simp add: cyclic_module_tree)
  have f2: "finite (dom (inheritance_tree (analyze three_level_module)))"
    by (simp add: three_level_module_tree)
  have nr: "\<not> revisits (inheritance_tree (analyze three_level_module)) ''Graduate''"
    using revisits_no_chain three_level_module_chain by blast
  from calculate_dit_returns_iff_no_revisit [OF f1, of "''A''"] cyclic_module_revisits
  have a: "calculate_dit (analyze cyclic_module) ''A'' = None" by blast
  from calculate_dit_returns_iff_no_revisit [OF f2, of "''Graduate''"] nr
  obtain ps where ps: "parent_chain (inheritance_tree (analyze three_level_module)) ''Graduate'' ps"
    "calculate_dit (analyze three_level_module) ''Graduate'' = Some (int (length ps))"
    by blast
  from parent_chain_unique [OF ps(1) three_level_module_chain] ps(2)
  have b: "calculate_dit (analyze three_level_module) ''Graduate'' = Some 2" by simp
  from f1 f2 nr a b cyclic_module_revisits show ?thesis by simp
qed

text \<open>
  The claim as the specification has it fails on two classes that name each other as base:
  the call of \<^verbatim>\<open>calculate_dit\<close> never returns.
\<close>

theorem calculate_dit_cycle_counterexample:
  "calculate_dit (analyze cyclic_module) ''A'' = None"
  unfolding calculate_dit_def by (rule dit_loop_revisits [OF cyclic_module_revisits])




subsection \<open>Issue flags\<close>

text \<open>
  C7. The issue list of a row of the class table holds \<^verbatim>\<open>High coupling\<close> exactly when CBO
  is greater than 3, \<^verbatim>\<open>Low cohesion\<close> exactly when LCOM is greater than 5 and
  \<^verbatim>\<open>Too many methods\<close> exactly when the number of methods is greater than 7, the
  comparisons strict, so that a metric equal to its threshold raises nothing. The flags
  that apply are printed in this order, joined by a comma and a space; a row with no flag
  prints \<^verbatim>\<open>OK\<close>.
\<close>

theorem issues_strict_thresholds:
  "issues cbo lcom n =
     map snd (filter fst [(cbo > 3, ''High coupling''), (num_value lcom > 5, ''Low cohesion''),
                          (n > 7, ''Too many methods'')]) \<and>
   (''High coupling'' \<in> set (issues cbo lcom n)) = (cbo > 3) \<and>
   (''Low cohesion'' \<in> set (issues cbo lcom n)) = (num_value lcom > 5) \<and>
   (''Too many methods'' \<in> set (issues cbo lcom n)) = (n > 7) \<and>
   issue_str cbo lcom n =
     (if cbo > 3 \<or> num_value lcom > 5 \<or> n > 7 then join '', '' (issues cbo lcom n) else ''OK'')"
  by (simp add: issues_def issue_str_def)

text \<open>At and above the thresholds.\<close>

theorem issues_strict_thresholds_witness:
  "issue_str 4 (PyInt 6) 8 = ''High coupling, Low cohesion, Too many methods'' \<and>
   issue_str 4 (PyInt 5) 7 = ''High coupling'' \<and>
   issue_str 3 (PyInt 5) 7 = ''OK'' \<and>
   issue_str 3 PyFloat_zero 8 = ''Too many methods''"
  using issues_strict_thresholds [of 4 "PyInt 6" 8] issues_strict_thresholds [of 4 "PyInt 5" 7]
    issues_strict_thresholds [of 3 "PyInt 5" 7] issues_strict_thresholds [of 3 PyFloat_zero 8]
  by simp

text \<open>
  C8 (amended). The threshold evaluation of \<^verbatim>\<open>generate_report\<close> takes no configuration:
  the thresholds are the literals 3, 5 and 7 in its body, and no caller can set any of
  them. The flags it emits are those of the specified evaluator at the default
  configuration, whatever configuration a caller may have in mind.
\<close>

theorem issues_fixed_thresholds:
  "issues cbo lcom n = map flag_label (spec_evaluate default_config cbo (num_value lcom) n)"
  by (simp add: issues_def spec_evaluate_def default_config_def)

text \<open>
  With the coupling threshold set to 10, the specified evaluator emits no flag for a class
  of CBO 4; the analyzer emits \<^verbatim>\<open>High coupling\<close>.
\<close>

theorem issues_ignore_configuration_counterexample:
  "issues 4 (PyInt 0) 0 \<noteq>
     map flag_label
       (spec_evaluate (default_config\<lparr>cboHighCoupling := 10\<rparr>) 4 (num_value (PyInt 0)) 0)"
  by (simp add: issues_def spec_evaluate_def default_config_def)

subsection \<open>What the metric functions change\<close>

lemma calculate_cbo_state:
  "snd (calculate_cbo self c) =
     self\<lparr>coupling :=
            (if c \<in> dom (coupling self) then coupling self else (coupling self)(c \<mapsto> {}))\<rparr>"
  by (auto simp: calculate_cbo_def dd_getitem_def split: option.splits)

lemma calculate_cbo_value:
  "fst (calculate_cbo self c) = int (card (dict_get (coupling self) c {}))"
  by (auto simp: calculate_cbo_def dd_getitem_def dict_get_def split: option.splits)

lemma calculate_lcom_state:
  "snd (calculate_lcom self c) =
     self\<lparr>methods_per_class :=
            (if c \<in> dom (methods_per_class self) then methods_per_class self
             else (methods_per_class self)(c \<mapsto> [])),
          method_attribute_usage :=
            (if length (dict_get (methods_per_class self) c []) \<le> 1 \<or>
                c \<in> dom (method_attribute_usage self)
             then method_attribute_usage self
             else (method_attribute_usage self)(c \<mapsto> Map.empty))\<rparr>"
  by (auto simp: calculate_lcom_def dd_getitem_def dict_get_def Let_def
      split: option.splits prod.splits)

lemma calculate_lcom_value:
  "fst (calculate_lcom self c) =
     (let ms = dict_get (methods_per_class self) c [];
          method_attrs = dict_get (method_attribute_usage self) c Map.empty
      in if length ms \<le> 1 then PyFloat_zero
         else PyInt (max (fst (lcom_loops method_attrs ms) - snd (lcom_loops method_attrs ms)) 0))"
  by (auto simp: calculate_lcom_def dd_getitem_def dict_get_def Let_def
      split: option.splits prod.splits)

lemma dict_get_upd_default:
  "dict_get (if k \<in> dom d then d else d(k \<mapsto> dflt)) k' dflt = dict_get d k' dflt"
  by (auto simp: dict_get_def split: option.splits)

text \<open>
  C9 (amended). \<^verbatim>\<open>calculate_dit\<close> changes nothing. \<^verbatim>\<open>calculate_cbo\<close> and
  \<^verbatim>\<open>calculate_lcom\<close> read a \<^verbatim>\<open>defaultdict\<close> by subscript, so a class name that is not yet a
  key is inserted with the empty default: \<^verbatim>\<open>calculate_cbo\<close> may add the name to the coupling
  map, \<^verbatim>\<open>calculate_lcom\<close> to the method lists and, for a class of two or more methods, to the
  attribute-usage map. Nothing else of the analyzer changes, and every metric computed
  afterwards has the value it had before.
\<close>

theorem metric_functions_frame:
  "snd (calculate_cbo self c) =
     self\<lparr>coupling :=
            (if c \<in> dom (coupling self) then coupling self else (coupling self)(c \<mapsto> {}))\<rparr> \<and>
   snd (calculate_lcom self c) =
     self\<lparr>methods_per_class :=
            (if c \<in> dom (methods_per_class self) then methods_per_class self
             else (methods_per_class self)(c \<mapsto> [])),
          method_attribute_usage :=
            (if length (dict_get (methods_per_class self) c []) \<le> 1 \<or>
                c \<in> dom (method_attribute_usage self)
             then method_attribute_usage self
             else (method_attribute_usage self)(c \<mapsto> Map.empty))\<rparr> \<and>
   calculate_dit (snd (calculate_cbo self c)) c' = calculate_dit self c' \<and>
   calculate_dit (snd (calculate_lcom self c)) c' = calculate_dit self c' \<and>
   fst (calculate_cbo (snd (calculate_cbo self c)) c') = fst (calculate_cbo self c') \<and>
   fst (calculate_cbo (snd (calculate_lcom self c)) c') = fst (calculate_cbo self c') \<and>
   fst (calculate_lcom (snd (calculate_cbo self c)) c') = fst (calculate_lcom self c') \<and>
   fst (calculate_lcom (snd (calculate_lcom self c)) c') = fst (calculate_lcom self c')"
proof (intro conjI)
  show "fst (calculate_cbo (snd (calculate_cbo self c)) c') = fst (calculate_cbo self c')"
    by (simp add: calculate_cbo_value calculate_cbo_state dict_get_upd_default
        del: fun_upd_apply)
  show "fst (calculate_lcom (snd (calculate_lcom self c)) c') = fst (calculate_lcom self c')"
    unfolding calculate_lcom_value calculate_lcom_state
    by (simp add: dict_get_upd_default del: fun_upd_apply)
      (auto simp: dict_get_def split: option.splits)
qed (simp_all add: calculate_cbo_state calculate_lcom_state calculate_dit_def
       calculate_cbo_value calculate_lcom_value)

text \<open>
  The claim as the specification has it fails on a class that no method refers from and
  that declares no method: after the metric calls its name is a key of the coupling map and
  of the method lists, which it was not before.
\<close>

theorem metric_functions_insert_keys_counterexample:
  "snd (calculate_cbo (analyze three_level_module) ''Person'') \<noteq> analyze three_level_module \<and>
   ''Person'' \<notin> dom (coupling (analyze three_level_module)) \<and>
   ''Person'' \<in> dom (coupling (snd (calculate_cbo (analyze three_level_module) ''Person''))) \<and>
   ''Person'' \<notin> dom (methods_per_class (analyze three_level_module)) \<and>
   ''Person'' \<in>
     dom (methods_per_class (snd (calculate_lcom (analyze three_level_module) ''Person'')))"
proof -
  have c: "coupling (analyze three_level_module) = Map.empty"
    by (simp add: three_level_module_def analyze_def init_def register_class_def
        store_inheritance_def visit_methods_def)
  have m: "methods_per_class (analyze three_level_module) = Map.empty"
    by (simp add: three_level_module_def analyze_def init_def register_class_def
        store_inheritance_def visit_methods_def)
  have "coupling (snd (calculate_cbo (analyze three_level_module) ''Person'')) \<noteq>
        coupling (analyze three_level_module)"
    by (simp add: calculate_cbo_state c)
  then have "snd (calculate_cbo (analyze three_level_module) ''Person'') \<noteq>
      analyze three_level_module"
    by metis
  then show ?thesis by (simp add: calculate_cbo_state calculate_lcom_state c m)
qed

subsection \<open>Lack of cohesion of methods\<close>

lemma method_pairs_Cons: "method_pairs (m # rest) = map (Pair m) rest @ method_pairs rest"
proof -
  have "[0..<Suc (length rest)] = 0 # [Suc 0..<Suc (length rest)]"
    by (rule upt_conv_Cons) simp
  moreover have "length (m # rest) = Suc (length rest)" by simp
  ultimately have a: "[0..<length (m # rest)] = 0 # map Suc [0..<length rest]"
    by (simp only: map_Suc_upt)
  have b: "map (\<lambda>j. (m, (m # rest) ! j)) [Suc 0..<Suc (length rest)] = map (Pair m) rest"
  proof -
    have "map (\<lambda>j. (m, (m # rest) ! j)) [Suc 0..<Suc (length rest)] =
          map (\<lambda>j. (m, (m # rest) ! j)) (map Suc [0..<length rest])"
      by (simp only: map_Suc_upt)
    also have "\<dots> = map (\<lambda>j. (m, rest ! j)) [0..<length rest]" by simp
    also have "\<dots> = map (Pair m) (map ((!) rest) [0..<length rest])" by simp
    also have "\<dots> = map (Pair m) rest" by (simp only: map_nth)
    finally show ?thesis .
  qed
  have c: "map (\<lambda>j. (x, (m # rest) ! j)) [Suc (Suc i)..<Suc (length rest)] =
           map (\<lambda>j. (x, rest ! j)) [Suc i..<length rest]" for i and x :: 'a
  proof -
    have "[Suc (Suc i)..<Suc (length rest)] = map Suc [Suc i..<length rest]"
      by (simp only: map_Suc_upt)
    then show ?thesis by simp
  qed
  show ?thesis
    unfolding method_pairs_def a
    by (simp add: b c comp_def del: upt_Suc)
qed

lemma method_pairs_Nil: "method_pairs [] = []"
  by (simp add: method_pairs_def)

lemma fold_lcom_pair:
  "fold (lcom_pair a m) rest (p, q) =
     (p + int (length (filter (\<lambda>pr. \<not> shares_attribute a pr) (map (Pair m) rest))),
      q + int (length (filter (shares_attribute a) (map (Pair m) rest))))"
  by (induction rest arbitrary: p q) (simp_all add: lcom_pair_def shares_attribute_def)

lemma lcom_outer:
  "drop k ms = suf \<Longrightarrow>
   fold (\<lambda>(i, method1) pq. fold (lcom_pair a method1) (drop (i + 1) ms) pq)
        (enumerate k suf) (p, q) =
     (p + int (length (filter (\<lambda>pr. \<not> shares_attribute a pr) (method_pairs suf))),
      q + int (length (filter (shares_attribute a) (method_pairs suf))))"
proof (induction suf arbitrary: k p q)
  case Nil
  then show ?case by (simp add: method_pairs_Nil)
next
  case (Cons m rest)
  have "drop (Suc k) ms = tl (drop k ms)" by (simp add: drop_Suc tl_drop)
  with Cons.prems have r: "drop (Suc k) ms = rest" by simp
  from Cons.IH [OF r] r show ?case
    by (simp add: fold_lcom_pair method_pairs_Cons)
qed

lemma lcom_loops_pairs:
  "lcom_loops a ms = (non_cohesive_pairs a ms, cohesive_pairs a ms)"
  using lcom_outer [of 0 ms ms a 0 0]
  by (simp add: lcom_loops_def non_cohesive_pairs_def cohesive_pairs_def)

text \<open>
  C3. For every class name, \<^verbatim>\<open>calculate_lcom\<close> returns \<open>max (P - Q) 0\<close>, where over every
  unordered pair of distinct methods declared on the class \<open>Q\<close> counts the pairs whose
  attribute sets meet and \<open>P\<close> the others; the methods and their attribute sets are those
  recorded for the class, empty where nothing is recorded. For a class of at most one method
  the result is the float \<^verbatim>\<open>0.0\<close>, which is 0; otherwise it is an integer.
\<close>

theorem calculate_lcom_pairs:
  "num_value (fst (calculate_lcom self c)) =
     max (non_cohesive_pairs (dict_get (method_attribute_usage self) c Map.empty)
            (dict_get (methods_per_class self) c []) -
          cohesive_pairs (dict_get (method_attribute_usage self) c Map.empty)
            (dict_get (methods_per_class self) c [])) 0 \<and>
   (if length (dict_get (methods_per_class self) c []) \<le> 1
    then fst (calculate_lcom self c) = PyFloat_zero
    else fst (calculate_lcom self c) =
      PyInt (max (non_cohesive_pairs (dict_get (method_attribute_usage self) c Map.empty)
            (dict_get (methods_per_class self) c []) -
          cohesive_pairs (dict_get (method_attribute_usage self) c Map.empty)
            (dict_get (methods_per_class self) c [])) 0))"
proof -
  have short: "length ms \<le> 1 \<Longrightarrow> method_pairs ms = []" for ms :: "string list"
    by (cases ms) (simp_all add: method_pairs_Nil method_pairs_Cons)
  show ?thesis
    by (simp add: calculate_lcom_value lcom_loops_pairs Let_def)
      (simp add: non_cohesive_pairs_def cohesive_pairs_def short)
qed

lemma cohesion_module_methods:
  "methods_per_class (analyze cohesion_module) =
     [''Student'' \<mapsto> [''register_course'', ''add_grade'']]"
  by (simp add: cohesion_module_def analyze_def init_def register_class_def
        store_inheritance_def visit_methods_def append_method_def analyze_method_def walk_def
        analyze_node_def dd_getitem_def dd_add_def usage_add_def known_classes_def)

lemma cohesion_module_usage:
  "method_attribute_usage (analyze cohesion_module) =
     [''Student'' \<mapsto> [''register_course'' \<mapsto> {''courses''}, ''add_grade'' \<mapsto> {''grades''}]]"
  by (simp add: cohesion_module_def analyze_def init_def register_class_def
        store_inheritance_def visit_methods_def append_method_def analyze_method_def walk_def
        analyze_node_def dd_getitem_def dd_add_def usage_add_def known_classes_def fun_upd_twist)

text \<open>
  Two methods with no common attribute give \<open>P = 1\<close>, \<open>Q = 0\<close> and LCOM 1; a class with
  no method gives \<^verbatim>\<open>0.0\<close>.
\<close>

theorem calculate_lcom_pairs_witness:
  "fst (calculate_lcom (analyze cohesion_module) ''Student'') = PyInt 1 \<and>
   fst (calculate_lcom (analyze cohesion_module) ''Course'') = PyFloat_zero"
  using calculate_lcom_pairs [of "analyze cohesion_module" "''Student''"]
    calculate_lcom_pairs [of "analyze cohesion_module" "''Course''"]
  by (simp add: cohesion_module_methods cohesion_module_usage dict_get_def
      non_cohesive_pairs_def cohesive_pairs_def method_pairs_Cons method_pairs_Nil
      shares_attribute_def)

subsection \<open>The builder\<close>

text \<open>Visiting a tree changes nothing for a class name that the tree does not declare.\<close>

lemma same_entries_refl: "same_entries c s s"
  by (simp add: same_entries_def)

lemma same_entries_trans: "same_entries c s s' \<Longrightarrow> same_entries c s' s'' \<Longrightarrow> same_entries c s s''"
  by (simp add: same_entries_def)

lemma class_names_children:
  "class_names n \<supseteq> (\<Union>k \<in> set (iter_child_nodes n). class_names k)"
  by (cases n) auto

lemma coupling_record_attribute [simp]:
  "coupling (record_attribute cn mn n s) = coupling s"
  by (cases "(cn, mn, n, s)" rule: record_attribute.cases) auto

lemma fields_record_attribute [simp]:
  "classes (record_attribute cn mn n s) = classes s"
  "inheritance_tree (record_attribute cn mn n s) = inheritance_tree s"
  "methods_per_class (record_attribute cn mn n s) = methods_per_class s"
  "current_class (record_attribute cn mn n s) = current_class s"
  by (cases "(cn, mn, n, s)" rule: record_attribute.cases; auto)+

lemma fields_record_coupling [simp]:
  "classes (record_coupling cn n s) = classes s"
  "inheritance_tree (record_coupling cn n s) = inheritance_tree s"
  "methods_per_class (record_coupling cn n s) = methods_per_class s"
  "current_class (record_coupling cn n s) = current_class s"
  by (cases n; simp)+

lemma coupling_record_coupling_other:
  "c \<noteq> cn \<Longrightarrow> coupling (record_coupling cn n s) c = coupling s c"
  by (cases n) (auto simp: dd_add_def dd_getitem_def split: option.splits)

lemma same_entries_analyze_node:
  "c \<noteq> cn \<Longrightarrow> same_entries c s (analyze_node cn mn n s)"
  by (simp add: same_entries_def analyze_node_def coupling_record_coupling_other)

lemma same_entries_fold:
  assumes "\<And>x s. same_entries c s (f x s)"
  shows "same_entries c s (fold f xs s)"
proof (induction xs arbitrary: s)
  case Nil
  show ?case by (simp add: same_entries_refl)
next
  case (Cons x xs)
  from assms [of s x] Cons [of "f x s"] show ?case
    by (simp add: same_entries_trans)
qed

lemma same_entries_analyze_method:
  "c \<noteq> cn \<Longrightarrow> same_entries c s (analyze_method s cn mn m)"
  unfolding analyze_method_def by (rule same_entries_fold) (rule same_entries_analyze_node)

lemma same_entries_append_method:
  "c \<noteq> cn \<Longrightarrow> same_entries c s (append_method s cn f)"
  by (auto simp: same_entries_def append_method_def dd_getitem_def Let_def split: option.splits)

lemma same_entries_visit_item:
  "c \<noteq> cn \<Longrightarrow> same_entries c s (visit_item cn item s)"
  by (cases item)
    (auto simp: same_entries_refl intro: same_entries_trans same_entries_append_method
      same_entries_analyze_method)

lemma same_entries_visit_methods:
  "c \<noteq> cn \<Longrightarrow> same_entries c s (visit_methods s cn body)"
  unfolding visit_methods_def by (rule same_entries_fold) (rule same_entries_visit_item)

lemma same_entries_store_base:
  "c \<noteq> cn \<Longrightarrow> same_entries c s (store_base cn b s)"
  by (cases b) (simp_all add: same_entries_def)

lemma same_entries_store_inheritance:
  "c \<noteq> cn \<Longrightarrow> same_entries c s (store_inheritance s cn bases)"
  unfolding store_inheritance_def by (rule same_entries_fold) (rule same_entries_store_base)

lemma same_entries_register_class:
  "c \<noteq> cn \<Longrightarrow> same_entries c s (register_class s cn bases body)"
  by (simp add: same_entries_def register_class_def)

lemma same_entries_current_class:
  "same_entries c s (s\<lparr>current_class := x\<rparr>)"
  by (simp add: same_entries_def)

lemma same_entries_visit:
  "c \<notin> class_names n \<Longrightarrow> same_entries c self (visit self n)"
  "c \<notin> class_names n \<Longrightarrow> same_entries c self (visit_ClassDef self n)"
  "c \<notin> class_names n \<Longrightarrow> same_entries c self (generic_visit self n)"
  "c \<notin> (\<Union>k \<in> set cs. class_names k) \<Longrightarrow> same_entries c self (visit_each self cs)"
proof (induction self n and self n and self n and self cs
    rule: visit_visit_ClassDef_generic_visit_visit_each.induct)
  case (3 self name bases kws body decorators)
  let ?n = "ClassDef name bases kws body decorators"
  let ?s1 = "register_class self name bases body"
  let ?s2 = "store_inheritance ?s1 name bases"
  let ?s3 = "visit_methods ?s2 name body"
  from 3(2) have ne: "c \<noteq> name" by simp
  have a: "same_entries c self ?s3"
    by (rule same_entries_trans [OF same_entries_trans
          [OF same_entries_register_class [OF ne] same_entries_store_inheritance [OF ne]]
          same_entries_visit_methods [OF ne]])
  have b: "same_entries c ?s3 (generic_visit ?s3 ?n)"
    using 3 by simp
  have "same_entries c self ((generic_visit ?s3 ?n)\<lparr>current_class := None\<rparr>)"
    by (rule same_entries_trans [OF same_entries_trans [OF a b] same_entries_current_class])
  then show ?case by (simp add: Let_def)
next
  case (5 self n)
  then show ?case using class_names_children [of n] by auto
next
  case (7 self child rest)
  then show ?case using same_entries_trans by fastforce
qed (simp_all add: same_entries_refl)

text \<open>The keys of \<^verbatim>\<open>self.classes\<close> after a visit.\<close>

lemma fold_preserves:
  assumes "\<And>x s. g (f x s) = g s"
  shows "g (fold f xs s) = g s"
  by (induction xs arbitrary: s) (simp_all add: assms)

lemma dom_classes_append_method: "dom (classes (append_method s cn f)) = dom (classes s)"
  by (auto simp: append_method_def dd_getitem_def Let_def split: option.splits prod.splits if_splits)

lemma classes_analyze_method: "classes (analyze_method s cn mn m) = classes s"
  unfolding analyze_method_def by (rule fold_preserves) (simp add: analyze_node_def)



lemma dom_classes_visit_item: "dom (classes (visit_item cn item s)) = dom (classes s)"
  by (cases item) (simp_all add: classes_analyze_method dom_classes_append_method)


lemma dom_classes_visit_methods: "dom (classes (visit_methods s cn body)) = dom (classes s)"
  unfolding visit_methods_def
  by (rule fold_preserves [where g = "\<lambda>s. dom (classes s)"]) (rule dom_classes_visit_item)


lemma classes_store_inheritance: "classes (store_inheritance s cn bases) = classes s"
proof -
  have "classes (store_base cn b s) = classes s" for b s by (cases b) simp_all
  then show ?thesis unfolding store_inheritance_def by (rule fold_preserves)
qed

lemma dom_classes_pre:
  "dom (classes (visit_methods (store_inheritance (register_class s cn bases body) cn bases) cn body)) =
     insert cn (dom (classes s))"
  by (simp add: dom_classes_visit_methods classes_store_inheritance register_class_def)

lemma class_names_iter_child_nodes:
  "n \<noteq> ClassDef (case n of ClassDef c _ _ _ _ \<Rightarrow> c | _ \<Rightarrow> [])
         (case n of ClassDef _ b _ _ _ \<Rightarrow> b | _ \<Rightarrow> [])
         (case n of ClassDef _ _ k _ _ \<Rightarrow> k | _ \<Rightarrow> [])
         (case n of ClassDef _ _ _ b _ \<Rightarrow> b | _ \<Rightarrow> [])
         (case n of ClassDef _ _ _ _ d \<Rightarrow> d | _ \<Rightarrow> []) \<Longrightarrow>
   class_names n = (\<Union>k \<in> set (iter_child_nodes n). class_names k)"
  by (cases n) auto

lemma dom_classes_visit:
  "dom (classes (visit self n)) = dom (classes self) \<union> class_names n"
  "dom (classes (visit_ClassDef self n)) =
     dom (classes self) \<union> (case n of ClassDef c b k bd d \<Rightarrow> class_names n | _ \<Rightarrow> {})"
  "dom (classes (generic_visit self n)) =
     dom (classes self) \<union> (\<Union>k \<in> set (iter_child_nodes n). class_names k)"
  "dom (classes (visit_each self cs)) = dom (classes self) \<union> (\<Union>k \<in> set cs. class_names k)"
proof (induction self n and self n and self n and self cs
    rule: visit_visit_ClassDef_generic_visit_visit_each.induct)
  case (3 self name bases kws body decorators)
  then show ?case
    by (simp add: Let_def dom_classes_pre) blast
next
  case (7 self child rest)
  then show ?case by auto
qed simp_all

lemma init_entries:
  "classes init c = None" "inheritance_tree init c = None" "coupling init c = None"
  "methods_per_class init c = None"
  by (simp_all add: init_def)

text \<open>
  C10. For every class name that no class declaration of the analysed tree has, the name is
  not a key of \<^verbatim>\<open>self.classes\<close>, and \<^verbatim>\<open>calculate_dit\<close>, \<^verbatim>\<open>calculate_cbo\<close> and
  \<^verbatim>\<open>calculate_lcom\<close> each return 0 for it (the last as the float \<^verbatim>\<open>0.0\<close>); none of them
  raises an error or fails to return.
\<close>

theorem unregistered_class_metrics:
  assumes "c \<notin> class_names tree"
  shows "c \<notin> dom (classes (analyze tree)) \<and>
         calculate_dit (analyze tree) c = Some 0 \<and>
         fst (calculate_cbo (analyze tree) c) = 0 \<and>
         fst (calculate_lcom (analyze tree) c) = PyFloat_zero"
proof -
  from same_entries_visit(1) [OF assms, of init]
  have e: "classes (analyze tree) c = None" "inheritance_tree (analyze tree) c = None"
    "coupling (analyze tree) c = None" "methods_per_class (analyze tree) c = None"
    by (simp_all add: same_entries_def analyze_def init_entries)
  from e(2) have "parent_chain (inheritance_tree (analyze tree)) c []" by simp
  from dit_loop_chain [OF this, of 0]
  have d: "calculate_dit (analyze tree) c = Some 0" by (simp add: calculate_dit_def)
  from e(1) have r: "c \<notin> dom (classes (analyze tree))" by (simp add: domIff)
  from e(3) have b: "fst (calculate_cbo (analyze tree) c) = 0"
    by (simp add: calculate_cbo_value dict_get_def)
  from e(4) have l: "fst (calculate_lcom (analyze tree) c) = PyFloat_zero"
    by (simp add: calculate_lcom_value dict_get_def)
  from r d b l show ?thesis by simp
qed

theorem unregistered_class_metrics_witness:
  "''Course'' \<notin> class_names three_level_module \<and>
   ''Course'' \<notin> dom (classes (analyze three_level_module)) \<and>
   calculate_dit (analyze three_level_module) ''Course'' = Some 0 \<and>
   fst (calculate_cbo (analyze three_level_module) ''Course'') = 0 \<and>
   fst (calculate_lcom (analyze three_level_module) ''Course'') = PyFloat_zero"
proof -
  have "''Course'' \<notin> class_names three_level_module"
    by (simp add: three_level_module_def)
  with unregistered_class_metrics [of "''Course''" three_level_module]
  show ?thesis by simp
qed

text \<open>The registry holds exactly the declared classes.\<close>

lemma registered_classes: "dom (classes (analyze tree)) = class_names tree"
  by (simp add: analyze_def dom_classes_visit(1) init_def)









end
